theory Spec2Isabelle
  imports Main
begin

section \<open>The WhatsApp channel adapter (pkg/channels/whatsapp.go)\<close>

text \<open>
  A shallow embedding of the dispatch and normalization layer of the WhatsApp channel:
  the native event callback (\<open>handleEvent\<close>, \<open>handleMessageEvent\<close>, \<open>downloadMedia\<close>,
  \<open>handleVoiceMessage\<close>), the bridge read loop (\<open>listenBridge\<close>, \<open>handleBridgeMessage\<close>)
  and the facade (\<open>Start\<close>, \<open>Stop\<close>, \<open>Send\<close>).

  The Go receiver \<open>c *WhatsAppChannel\<close> is mutable, so every method takes the channel
  and returns it updated. The collaborators the methods act on (the filesystem, the
  message bus, the two network peers) are fields of the same record: what the methods
  did to them is read off the returned channel. What a collaborator answers to a call
  (a download, a dial, a temp-file creation) is an input, collected in the record \<open>env\<close>.
\<close>

subsection \<open>Data model\<close>

text \<open>A decoded JSON value, as \<open>encoding/json\<close> stores it in an \<open>interface{}\<close>. A number is
  a float64 in Go; the channel only ever inspects the dynamic type of a value, never a
  number's payload.\<close>

datatype json =
    JNull
  | JBool bool
  | JNum int
  | JStr string
  | JArr "json list"
  | JObj "(string \<times> json) list"

text \<open>\<open>types.JID\<close> and \<open>types.MessageInfo\<close> of the protocol library, with the fields the
  channel reads.\<close>

record JID =
  User :: string
  Server :: string

record MessageInfo =
  IsFromMe :: bool
  Chat :: JID
  Sender :: JID
  ID :: string
  PushName :: string
  IsGroup :: bool

text \<open>The payload \<open>waE2E.Message\<close>: every member is an optional (pointer) field. The
  downloadable kinds carry the direct path that identifies their blob.\<close>

record ExtendedTextMessage =
  etm_Text :: "string option"

record ImageMessage =
  img_DirectPath :: string
  img_Caption :: "string option"

record VideoMessage =
  vid_DirectPath :: string
  vid_Caption :: "string option"

record DocumentMessage =
  doc_DirectPath :: string
  doc_FileName :: "string option"
  doc_Caption :: "string option"

record AudioMessage =
  aud_DirectPath :: string

record StickerMessage =
  stk_DirectPath :: string

record Message =
  conversation :: "string option"
  extendedTextMessage :: "ExtendedTextMessage option"
  imageMessage :: "ImageMessage option"
  videoMessage :: "VideoMessage option"
  documentMessage :: "DocumentMessage option"
  audioMessage :: "AudioMessage option"
  stickerMessage :: "StickerMessage option"

record MessageEvent =
  Info :: MessageInfo
  Msg :: Message

text \<open>The event kinds \<open>handleEvent\<close> switches on; a history sync wraps old
  conversations' messages. \<open>EvOther\<close> is any event type the switch has no case for.\<close>

datatype event =
    EvMessage MessageEvent
  | EvConnected
  | EvDisconnected
  | EvLoggedOut
  | EvHistorySync "MessageEvent list"
  | EvOther

text \<open>One call of the bus interface \<open>HandleMessage(senderID, chatID, content, mediaPaths,
  metadata)\<close>.\<close>

record InboundCall =
  senderID :: string
  chatID :: string
  content :: string
  mediaPaths :: "string list"
  metadata :: "string \<rightharpoonup> string"

text \<open>What the methods do to the filesystem and to the bus, in the order they do it: a
  temporary file created, a call of \<open>os.Remove\<close> with whether it removed the file, a call of
  \<open>HandleMessage\<close>.\<close>

datatype effect =
    Created string
  | Removed string bool
  | Handed InboundCall

record OutboundMessage =
  out_ChatID :: string
  out_Content :: string

text \<open>The transcription capability \<open>voice.GroqTranscriber\<close>: its availability check and
  its \<open>Transcribe\<close>, whose error covers the expiry of the 30 second context it is called
  with.\<close>

datatype transcribe_error = DeadlineExceeded | TranscribeFailed string

record Transcriber =
  IsAvailable :: bool
  Transcribe :: "string \<Rightarrow> transcribe_error + string"

record Client =
  StoreID :: bool
  IsConnected :: bool

datatype error = Err string

text \<open>The channel. \<open>running\<close> is the flag of the embedded \<open>BaseChannel\<close>. The last five
  fields are the collaborators: the regular files that exist, the calls made to the bus
  (oldest first), the frames written to the bridge socket, the messages submitted to
  the protocol client, and the effects on the filesystem and the bus in the order they
  happened.\<close>

record WhatsAppChannel =
  config_BridgeURL :: string
  config_StorePath :: string
  transcriber :: "Transcriber option"
  client :: "Client option"
  container :: bool
  conn :: "nat option"
  url :: string
  connected :: bool
  running :: bool
  files :: "string set"
  bus :: "InboundCall list"
  wire :: "(string \<rightharpoonup> json) list"
  sentNative :: "(JID \<times> string) list"
  effects :: "effect list"

text \<open>What the collaborators answer.\<close>

record env =
  jidString :: "JID \<Rightarrow> string"
  clientDownload :: "string \<Rightarrow> string option"
  tempDir :: string
  createTemp :: "string \<Rightarrow> string \<Rightarrow> string option"
  fileWrite :: "string \<Rightarrow> string \<Rightarrow> bool"
  fileRemove :: "string \<Rightarrow> bool"
  userHomeDir :: string
  filepathDir :: "string \<Rightarrow> string"
  mkdirAll :: "string \<Rightarrow> bool"
  sqlstoreNew :: "string \<Rightarrow> bool"
  getFirstDevice :: "bool option"
  clientConnect :: bool
  qrChan :: "string list"
  dial :: "string \<Rightarrow> nat option"
  writeMessage :: "(string \<rightharpoonup> json) \<Rightarrow> bool"
  parseJID :: "string \<Rightarrow> JID option"
  sendMessage :: "JID \<Rightarrow> string \<Rightarrow> bool"

subsection \<open>Helpers\<close>

definition newline :: string where
  "newline = [CHR 0x0A]"

definition appendWhatsAppContent :: "string \<Rightarrow> string \<Rightarrow> string" where
  "appendWhatsAppContent c suffix = (if c = [] then suffix else c @ newline @ suffix)"

text \<open>The nil-safe getters of the generated protobuf code: an unset field reads as the
  empty string.\<close>

definition getStr :: "string option \<Rightarrow> string" where
  "getStr p = (case p of None \<Rightarrow> [] | Some s \<Rightarrow> s)"

definition GetConversation :: "Message \<Rightarrow> string" where
  "GetConversation m = getStr (conversation m)"

definition GetText :: "ExtendedTextMessage \<Rightarrow> string" where
  "GetText x = getStr (etm_Text x)"

text \<open>\<open>filepath.Ext\<close>: the suffix from the last dot of the last path element, scanning
  from the end and stopping at a separator.\<close>

fun extScan :: "string \<Rightarrow> string \<Rightarrow> string" where
  "extScan [] suf = []"
| "extScan (ch # rest) suf =
     (if ch = CHR ''/'' then []
      else if ch = CHR ''.'' then ch # suf
      else extScan rest (ch # suf))"

definition filepath_Ext :: "string \<Rightarrow> string" where
  "filepath_Ext p = extScan (rev p) []"

text \<open>Modelled from the spec: \<open>BaseChannel.HandleMessage\<close> and \<open>BaseChannel.setRunning\<close>
  are declared in a file of the repository that is not under src/. The spec gives the
  first as a push to the bus with no result, the second as the toggle of the shared
  running flag. A call of \<open>HandleMessage\<close> is recorded with its five arguments.\<close>

definition HandleMessage ::
  "string \<Rightarrow> string \<Rightarrow> string \<Rightarrow> string list \<Rightarrow> (string \<rightharpoonup> string) \<Rightarrow>
   WhatsAppChannel \<Rightarrow> WhatsAppChannel" where
  "HandleMessage s ch ct mp md c =
     (let call = \<lparr>senderID = s, chatID = ch, content = ct, mediaPaths = mp, metadata = md\<rparr>
      in c\<lparr>bus := bus c @ [call], effects := effects c @ [Handed call]\<rparr>)"

definition setRunning :: "bool \<Rightarrow> WhatsAppChannel \<Rightarrow> WhatsAppChannel" where
  "setRunning b c = c\<lparr>running := b\<rparr>"

text \<open>\<open>os.Remove\<close> on a regular file. It can fail, and the file then stays; the channel
  discards its error at both places it calls it.\<close>

definition os_Remove :: "env \<Rightarrow> string \<Rightarrow> WhatsAppChannel \<Rightarrow> WhatsAppChannel" where
  "os_Remove e f c =
     c\<lparr>files := (if fileRemove e f then files c - {f} else files c),
       effects := effects c @ [Removed f (fileRemove e f)]\<rparr>"

subsection \<open>Native mode: media download and voice annotation\<close>

definition mediaDir :: "env \<Rightarrow> string" where
  "mediaDir e = tempDir e @ ''/picoclaw_media''"

text \<open>\<open>downloadMedia\<close>: the empty path when there is no client, when the download fails,
  when the temporary file cannot be created, or when the write fails (\<open>os.Remove\<close> is then
  called on the file); the name of the new file otherwise.\<close>

definition downloadMedia ::
  "env \<Rightarrow> string \<Rightarrow> string \<Rightarrow> WhatsAppChannel \<Rightarrow> string \<times> WhatsAppChannel" where
  "downloadMedia e dp ext c =
     (case client c of
        None \<Rightarrow> ([], c)
      | Some cl \<Rightarrow>
          (case clientDownload e dp of
             None \<Rightarrow> ([], c)
           | Some bytes \<Rightarrow>
               (case createTemp e (mediaDir e) (''wa_*'' @ ext) of
                  None \<Rightarrow> ([], c)
                | Some name \<Rightarrow>
                    (let c1 = c\<lparr>files := insert name (files c),
                                  effects := effects c @ [Created name]\<rparr>
                     in if \<not> fileWrite e name bytes then ([], os_Remove e name c1)
                        else (name, c1)))))"

definition handleVoiceMessage :: "WhatsAppChannel \<Rightarrow> string \<Rightarrow> string" where
  "handleVoiceMessage c audioPath =
     (case transcriber c of
        None \<Rightarrow> ''[voice]''
      | Some t \<Rightarrow>
          if \<not> IsAvailable t then ''[voice]''
          else (case Transcribe t audioPath of
                  Inl err \<Rightarrow> ''[voice (transcription failed)]''
                | Inr txt \<Rightarrow> ''[voice transcription: '' @ txt @ '']''))"

subsection \<open>Native mode: normalization\<close>

text \<open>The local variables of \<open>handleMessageEvent\<close>, with the channel as it stands.\<close>

record norm =
  n_content :: string
  n_mediaPaths :: "string list"
  n_localFiles :: "string list"
  n_chan :: WhatsAppChannel

definition extractText :: "Message \<Rightarrow> string" where
  "extractText m =
     (if GetConversation m \<noteq> [] then GetConversation m
      else (case extendedTextMessage m of
              None \<Rightarrow> []
            | Some x \<Rightarrow> if GetText x \<noteq> [] then GetText x else []))"

text \<open>What each attachment block does with the path it got and with the caption.\<close>

definition keepPath :: "string \<Rightarrow> WhatsAppChannel \<Rightarrow> norm \<Rightarrow> norm" where
  "keepPath path c n =
     (if path \<noteq> []
      then n\<lparr>n_localFiles := n_localFiles n @ [path],
             n_mediaPaths := n_mediaPaths n @ [path], n_chan := c\<rparr>
      else n\<lparr>n_chan := c\<rparr>)"

definition keepCaption :: "string \<Rightarrow> norm \<Rightarrow> norm" where
  "keepCaption caption n =
     (if caption \<noteq> [] then n\<lparr>n_content := appendWhatsAppContent (n_content n) caption\<rparr>
      else n)"

definition imageStep :: "env \<Rightarrow> Message \<Rightarrow> norm \<Rightarrow> norm" where
  "imageStep e m n =
     (case imageMessage m of
        None \<Rightarrow> n
      | Some imgMsg \<Rightarrow>
          (let (path, c) = downloadMedia e (img_DirectPath imgMsg) ''.jpg'' (n_chan n)
           in keepCaption (getStr (img_Caption imgMsg)) (keepPath path c n)))"

definition videoStep :: "env \<Rightarrow> Message \<Rightarrow> norm \<Rightarrow> norm" where
  "videoStep e m n =
     (case videoMessage m of
        None \<Rightarrow> n
      | Some vidMsg \<Rightarrow>
          (let (path, c) = downloadMedia e (vid_DirectPath vidMsg) ''.mp4'' (n_chan n)
           in keepCaption (getStr (vid_Caption vidMsg)) (keepPath path c n)))"

definition documentExt :: "DocumentMessage \<Rightarrow> string" where
  "documentExt docMsg =
     (let fn = getStr (doc_FileName docMsg)
      in if fn \<noteq> []
         then (if filepath_Ext fn = [] then ''.bin'' else filepath_Ext fn)
         else ''.bin'')"

definition documentStep :: "env \<Rightarrow> Message \<Rightarrow> norm \<Rightarrow> norm" where
  "documentStep e m n =
     (case documentMessage m of
        None \<Rightarrow> n
      | Some docMsg \<Rightarrow>
          (let (path, c) =
                 downloadMedia e (doc_DirectPath docMsg) (documentExt docMsg) (n_chan n)
           in keepCaption (getStr (doc_Caption docMsg)) (keepPath path c n)))"

definition audioStep :: "env \<Rightarrow> Message \<Rightarrow> norm \<Rightarrow> norm" where
  "audioStep e m n =
     (case audioMessage m of
        None \<Rightarrow> n
      | Some audioMsg \<Rightarrow>
          (let (path, c) = downloadMedia e (aud_DirectPath audioMsg) ''.ogg'' (n_chan n)
           in if path \<noteq> []
              then (keepPath path c n)
                     \<lparr>n_content := appendWhatsAppContent (n_content n) (handleVoiceMessage c path)\<rparr>
              else n\<lparr>n_chan := c\<rparr>))"

definition stickerStep :: "Message \<Rightarrow> norm \<Rightarrow> norm" where
  "stickerStep m n =
     (case stickerMessage m of
        None \<Rightarrow> n
      | Some s \<Rightarrow> n\<lparr>n_content := appendWhatsAppContent (n_content n) ''[sticker]''\<rparr>)"

text \<open>The extraction: text, then image, video, document, audio and sticker, in the
  order of the source.\<close>

definition beforeAudio :: "env \<Rightarrow> Message \<Rightarrow> WhatsAppChannel \<Rightarrow> norm" where
  "beforeAudio e m c =
     documentStep e m (videoStep e m (imageStep e m
       \<lparr>n_content = extractText m, n_mediaPaths = [], n_localFiles = [], n_chan = c\<rparr>))"

definition extractAll :: "env \<Rightarrow> Message \<Rightarrow> WhatsAppChannel \<Rightarrow> norm" where
  "extractAll e m c = stickerStep m (audioStep e m (beforeAudio e m c))"

definition nativeMetadata :: "env \<Rightarrow> MessageInfo \<Rightarrow> (string \<rightharpoonup> string)" where
  "nativeMetadata e i =
     (let md0 = [''message_id'' \<mapsto> ID i, ''sender_jid'' \<mapsto> jidString e (Sender i)];
          md1 = (if PushName i \<noteq> [] then md0(''user_name'' \<mapsto> PushName i) else md0)
      in if IsGroup i then md1(''is_group'' \<mapsto> ''true'') else md1)"

text \<open>The body of \<open>handleMessageEvent\<close> after the two filters, up to its return; the
  deferred removal of the local files comes after it.\<close>

definition handleMessageBody :: "env \<Rightarrow> MessageEvent \<Rightarrow> WhatsAppChannel \<Rightarrow> norm" where
  "handleMessageBody e evt c =
     (let n = extractAll e (Msg evt) c
      in if n_content n = [] \<and> length (n_mediaPaths n) = 0 then n
         else n\<lparr>n_chan :=
                  HandleMessage (jidString e (Sender (Info evt))) (jidString e (Chat (Info evt)))
                    (n_content n) (n_mediaPaths n) (nativeMetadata e (Info evt)) (n_chan n)\<rparr>)"

definition handleMessageEvent :: "env \<Rightarrow> MessageEvent \<Rightarrow> WhatsAppChannel \<Rightarrow> WhatsAppChannel" where
  "handleMessageEvent e evt c =
     (if IsFromMe (Info evt) then c
      else if Server (Chat (Info evt)) = ''broadcast'' then c
      else (let n = handleMessageBody e evt c
            in fold (os_Remove e) (n_localFiles n) (n_chan n)))"

definition handleEvent :: "env \<Rightarrow> event \<Rightarrow> WhatsAppChannel \<Rightarrow> WhatsAppChannel" where
  "handleEvent e rawEvt c =
     (case rawEvt of
        EvMessage evt \<Rightarrow> handleMessageEvent e evt c
      | EvConnected \<Rightarrow> c
      | EvDisconnected \<Rightarrow> c
      | EvLoggedOut \<Rightarrow> setRunning False c
      | EvHistorySync h \<Rightarrow> c
      | EvOther \<Rightarrow> c)"

subsection \<open>Bridge mode: the read loop\<close>

text \<open>The type assertion \<open>msg[k].(string)\<close> on a decoded object: it succeeds only on a
  key that is present and holds a JSON string.\<close>

definition asString :: "json option \<Rightarrow> string option" where
  "asString v = (case v of Some (JStr s) \<Rightarrow> Some s | _ \<Rightarrow> None)"

fun bridgeMedia :: "json list \<Rightarrow> string list" where
  "bridgeMedia [] = []"
| "bridgeMedia (m # ms) = (case m of JStr path \<Rightarrow> path # bridgeMedia ms | _ \<Rightarrow> bridgeMedia ms)"

definition bridgeMetadata :: "(string \<rightharpoonup> json) \<Rightarrow> (string \<rightharpoonup> string)" where
  "bridgeMetadata msg =
     (let md0 = (case asString (msg ''id'') of
                   Some messageID \<Rightarrow> [''message_id'' \<mapsto> messageID]
                 | None \<Rightarrow> Map.empty)
      in case asString (msg ''from_name'') of
           Some userName \<Rightarrow> md0(''user_name'' \<mapsto> userName)
         | None \<Rightarrow> md0)"

definition handleBridgeMessage :: "(string \<rightharpoonup> json) \<Rightarrow> WhatsAppChannel \<Rightarrow> WhatsAppChannel" where
  "handleBridgeMessage msg c =
     (case asString (msg ''from'') of
        None \<Rightarrow> c
      | Some sender \<Rightarrow>
          (let chat = (case asString (msg ''chat'') of Some s \<Rightarrow> s | None \<Rightarrow> sender);
               ct = (case asString (msg ''content'') of Some s \<Rightarrow> s | None \<Rightarrow> []);
               mp = (case msg ''media'' of Some (JArr mediaData) \<Rightarrow> bridgeMedia mediaData | _ \<Rightarrow> [])
           in HandleMessage sender chat ct mp (bridgeMetadata msg) c))"

text \<open>What one iteration of the loop of \<open>listenBridge\<close> finds: the context cancelled, no
  connection handle (the handle is shared with \<open>Stop\<close>), a failed read, or a frame with
  the result of \<open>json.Unmarshal\<close> into a map (\<open>None\<close> when it reports an error).\<close>

datatype loopEvent =
    Cancelled
  | ConnNil
  | ReadError
  | ReadFrame "(string \<rightharpoonup> json) option"

text \<open>The loop over the iterations observed so far. It returns at a cancellation; after
  a missing handle, a read error, an undecodable frame and a frame that is not a message
  it goes on with the next iteration.\<close>

fun listenBridge :: "loopEvent list \<Rightarrow> WhatsAppChannel \<Rightarrow> WhatsAppChannel" where
  "listenBridge [] c = c"
| "listenBridge (Cancelled # evs) c = c"
| "listenBridge (ConnNil # evs) c = listenBridge evs c"
| "listenBridge (ReadError # evs) c = listenBridge evs c"
| "listenBridge (ReadFrame None # evs) c = listenBridge evs c"
| "listenBridge (ReadFrame (Some msg) # evs) c =
     (case asString (msg ''type'') of
        None \<Rightarrow> listenBridge evs c
      | Some msgType \<Rightarrow>
          if msgType = ''message'' then listenBridge evs (handleBridgeMessage msg c)
          else listenBridge evs c)"

subsection \<open>The two transports and the facade\<close>

definition NewWhatsAppChannel :: "string \<Rightarrow> string \<Rightarrow> WhatsAppChannel" where
  "NewWhatsAppChannel bridgeURL storePath =
     \<lparr>config_BridgeURL = bridgeURL, config_StorePath = storePath, transcriber = None,
      client = None, container = False, conn = None, url = bridgeURL, connected = False,
      running = False, files = {}, bus = [], wire = [], sentNative = [], effects = []\<rparr>"

definition SetTranscriber :: "Transcriber option \<Rightarrow> WhatsAppChannel \<Rightarrow> WhatsAppChannel" where
  "SetTranscriber t c = c\<lparr>transcriber := t\<rparr>"

fun expandHomePath :: "env \<Rightarrow> string \<Rightarrow> string" where
  "expandHomePath e [] = []"
| "expandHomePath e (ch # rest) =
     (if ch = CHR ''~''
      then (case rest of
              [] \<Rightarrow> userHomeDir e
            | ch2 # rest2 \<Rightarrow> if ch2 = CHR ''/'' then userHomeDir e @ rest else userHomeDir e)
      else ch # rest)"

text \<open>The pairing loop of \<open>startNative\<close> over the events of the QR channel, until the
  channel is closed: only a timeout ends it with an error.\<close>

fun qrLoop :: "string list \<Rightarrow> error option" where
  "qrLoop [] = None"
| "qrLoop (ev # evs) =
     (if ev = ''timeout'' then Some (Err ''WhatsApp QR code timed out'') else qrLoop evs)"

definition startNative :: "env \<Rightarrow> WhatsAppChannel \<Rightarrow> error option \<times> WhatsAppChannel" where
  "startNative e c =
     (let p = expandHomePath e (config_StorePath c);
          storePath = (if p = [] then tempDir e @ ''/picoclaw_whatsapp.db'' else p)
      in if \<not> mkdirAll e (filepathDir e storePath)
         then (Some (Err ''failed to create WhatsApp store directory''), c)
         else if \<not> sqlstoreNew e storePath
         then (Some (Err ''failed to open WhatsApp store''), c)
         else (let c1 = c\<lparr>container := True\<rparr>
               in case getFirstDevice e of
                    None \<Rightarrow> (Some (Err ''failed to get WhatsApp device''), c1)
                  | Some hasID \<Rightarrow>
                      (let c2 = c1\<lparr>client := Some \<lparr>StoreID = hasID, IsConnected = False\<rparr>\<rparr>;
                           c3 = c1\<lparr>client := Some \<lparr>StoreID = hasID, IsConnected = True\<rparr>\<rparr>
                       in if \<not> hasID
                          then (if \<not> clientConnect e
                                then (Some (Err ''WhatsApp connect failed''), c2)
                                else (case qrLoop (qrChan e) of
                                        Some err \<Rightarrow> (Some err, c3)
                                      | None \<Rightarrow> (None, setRunning True c3)))
                          else (if \<not> clientConnect e
                                then (Some (Err ''WhatsApp connect failed''), c2)
                                else (None, setRunning True c3)))))"

definition stopNative :: "WhatsAppChannel \<Rightarrow> error option \<times> WhatsAppChannel" where
  "stopNative c =
     (let c1 = (case client c of
                  None \<Rightarrow> c
                | Some cl \<Rightarrow> c\<lparr>client := Some (cl\<lparr>IsConnected := False\<rparr>)\<rparr>)
      in (None, setRunning False c1))"

definition sendNative ::
  "env \<Rightarrow> OutboundMessage \<Rightarrow> WhatsAppChannel \<Rightarrow> error option \<times> WhatsAppChannel" where
  "sendNative e msg c =
     (case client c of
        None \<Rightarrow> (Some (Err ''WhatsApp native client not connected''), c)
      | Some cl \<Rightarrow>
          if \<not> IsConnected cl then (Some (Err ''WhatsApp native client not connected''), c)
          else (case parseJID e (out_ChatID msg) of
                  None \<Rightarrow> (Some (Err ''invalid WhatsApp JID''), c)
                | Some jid \<Rightarrow>
                    if \<not> sendMessage e jid (out_Content msg)
                    then (Some (Err ''failed to send WhatsApp message''), c)
                    else (None, c\<lparr>sentNative := sentNative c @ [(jid, out_Content msg)]\<rparr>)))"

text \<open>\<open>startBridge\<close> also launches \<open>listenBridge\<close> as a background task; what that task
  does is the function \<open>listenBridge\<close> above.\<close>

definition startBridge :: "env \<Rightarrow> WhatsAppChannel \<Rightarrow> error option \<times> WhatsAppChannel" where
  "startBridge e c =
     (case dial e (url c) of
        None \<Rightarrow> (Some (Err ''failed to connect to WhatsApp bridge''), c)
      | Some cn \<Rightarrow> (None, setRunning True (c\<lparr>conn := Some cn, connected := True\<rparr>)))"

definition stopBridge :: "WhatsAppChannel \<Rightarrow> error option \<times> WhatsAppChannel" where
  "stopBridge c =
     (let c1 = (case conn c of None \<Rightarrow> c | Some cn \<Rightarrow> c\<lparr>conn := None\<rparr>)
      in (None, setRunning False (c1\<lparr>connected := False\<rparr>)))"

definition sendBridge ::
  "env \<Rightarrow> OutboundMessage \<Rightarrow> WhatsAppChannel \<Rightarrow> error option \<times> WhatsAppChannel" where
  "sendBridge e msg c =
     (case conn c of
        None \<Rightarrow> (Some (Err ''whatsapp bridge connection not established''), c)
      | Some cn \<Rightarrow>
          (let payload = [''type'' \<mapsto> JStr ''message'', ''to'' \<mapsto> JStr (out_ChatID msg),
                          ''content'' \<mapsto> JStr (out_Content msg)]
           in if \<not> writeMessage e payload then (Some (Err ''failed to send message''), c)
              else (None, c\<lparr>wire := wire c @ [payload]\<rparr>)))"

definition Start :: "env \<Rightarrow> WhatsAppChannel \<Rightarrow> error option \<times> WhatsAppChannel" where
  "Start e c = (if config_BridgeURL c \<noteq> [] then startBridge e c else startNative e c)"

definition Stop :: "WhatsAppChannel \<Rightarrow> error option \<times> WhatsAppChannel" where
  "Stop c = (if config_BridgeURL c \<noteq> [] then stopBridge c else stopNative c)"

definition Send ::
  "env \<Rightarrow> OutboundMessage \<Rightarrow> WhatsAppChannel \<Rightarrow> error option \<times> WhatsAppChannel" where
  "Send e msg c = (if config_BridgeURL c \<noteq> [] then sendBridge e msg c else sendNative e msg c)"

text \<open>A lifetime of the adapter: any sequence of calls of its methods and of deliveries
  to its two callbacks, each with what the collaborators answer during it.\<close>

datatype call =
    CallStart env
  | CallStop
  | CallSend env OutboundMessage
  | CallSetTranscriber "Transcriber option"
  | CallHandleEvent env event
  | CallListenBridge "loopEvent list"

fun step :: "call \<Rightarrow> WhatsAppChannel \<Rightarrow> WhatsAppChannel" where
  "step (CallStart e) c = snd (Start e c)"
| "step CallStop c = snd (Stop c)"
| "step (CallSend e msg) c = snd (Send e msg c)"
| "step (CallSetTranscriber t) c = SetTranscriber t c"
| "step (CallHandleEvent e ev) c = handleEvent e ev c"
| "step (CallListenBridge evs) c = listenBridge evs c"

definition lifetime :: "call list \<Rightarrow> WhatsAppChannel \<Rightarrow> WhatsAppChannel" where
  "lifetime calls c = fold step calls c"

text \<open>The fields only the native transport writes, and those only the bridge transport
  writes.\<close>

definition nativeSide :: "WhatsAppChannel \<Rightarrow> Client option \<times> bool \<times> (JID \<times> string) list" where
  "nativeSide c = (client c, container c, sentNative c)"

definition bridgeSide :: "WhatsAppChannel \<Rightarrow> nat option \<times> bool \<times> (string \<rightharpoonup> json) list" where
  "bridgeSide c = (conn c, connected c, wire c)"

subsection \<open>Notions the properties are stated with\<close>

text \<open>The calls a method made to the bus: those in the log of the channel it returned
  beyond the log of the channel it was given.\<close>

definition newCalls :: "WhatsAppChannel \<Rightarrow> WhatsAppChannel \<Rightarrow> InboundCall list" where
  "newCalls c c' = drop (length (bus c)) (bus c')"

fun isHanded :: "effect \<Rightarrow> bool" where
  "isHanded (Handed call) = True"
| "isHanded x = False"


text \<open>Two channels that differ at most in the filesystem and in effects added to the second,
  none of them a call to the bus.\<close>

definition onlyFiles :: "WhatsAppChannel \<Rightarrow> WhatsAppChannel \<Rightarrow> bool" where
  "onlyFiles c c' =
     (\<exists>F xs. c' = c\<lparr>files := F, effects := effects c @ xs\<rparr> \<and> \<not> list_ex isHanded xs)"


text \<open>What holds of the local variables of \<open>handleMessageEvent\<close> after every attachment
  block: the channel changed only in its filesystem and in effects that are not bus calls,
  and \<open>mediaPaths\<close> and \<open>localFiles\<close> hold the same paths.\<close>

definition stepInv :: "WhatsAppChannel \<Rightarrow> norm \<Rightarrow> bool" where
  "stepInv c n =
     (onlyFiles c (n_chan n) \<and> n_mediaPaths n = n_localFiles n)"

text \<open>The call \<open>handleMessageEvent\<close> makes for an event whose extraction ended in \<open>n\<close>.\<close>

definition nativeCall :: "env \<Rightarrow> MessageEvent \<Rightarrow> norm \<Rightarrow> InboundCall" where
  "nativeCall e evt n =
     \<lparr>senderID = jidString e (Sender (Info evt)), chatID = jidString e (Chat (Info evt)),
      content = n_content n, mediaPaths = n_mediaPaths n,
      metadata = nativeMetadata e (Info evt)\<rparr>"

text \<open>The two early returns of \<open>handleMessageEvent\<close>.\<close>

definition filtered :: "MessageEvent \<Rightarrow> bool" where
  "filtered evt = (IsFromMe (Info evt) \<or> Server (Chat (Info evt)) = ''broadcast'')"

text \<open>The string field \<open>k\<close> of a frame, or \<open>d\<close> when the frame has no such string.\<close>

definition fieldOr :: "(string \<rightharpoonup> json) \<Rightarrow> string \<Rightarrow> string \<Rightarrow> string" where
  "fieldOr msg k d = (case msg k of Some (JStr s) \<Rightarrow> s | _ \<Rightarrow> d)"

fun isCancelled :: "loopEvent \<Rightarrow> bool" where
  "isCancelled Cancelled = True"
| "isCancelled ev = False"

text \<open>The read loop as the amended claim C8 words it: sender, chat and content of the bus
  call a frame leads to. Only a frame of type "message" leads to one, and only when its
  \<open>from\<close> is a string; the chat defaults to the sender and the content to the empty
  string.\<close>

fun specBridgeCalls :: "loopEvent \<Rightarrow> (string \<times> string \<times> string) list" where
  "specBridgeCalls (ReadFrame (Some msg)) =
     (if msg ''type'' = Some (JStr ''message'')
      then (case msg ''from'' of
              Some (JStr a) \<Rightarrow> [(a, fieldOr msg ''chat'' a, fieldOr msg ''content'' [])]
            | _ \<Rightarrow> [])
      else [])"
| "specBridgeCalls ev = []"

definition callTriple :: "InboundCall \<Rightarrow> string \<times> string \<times> string" where
  "callTriple b = (senderID b, chatID b, content b)"

subsection \<open>Concrete inputs\<close>

definition pingFrame :: "string \<rightharpoonup> json" where
  "pingFrame = [''type'' \<mapsto> JStr ''ping'']"

definition hiFrame :: "string \<rightharpoonup> json" where
  "hiFrame = [''type'' \<mapsto> JStr ''message'', ''from'' \<mapsto> JStr ''A'', ''content'' \<mapsto> JStr ''hi'']"

definition bareFrame :: "string \<rightharpoonup> json" where
  "bareFrame = [''type'' \<mapsto> JStr ''message'', ''from'' \<mapsto> JStr ''A'']"

definition anonFrame :: "string \<rightharpoonup> json" where
  "anonFrame = [''type'' \<mapsto> JStr ''message'', ''from'' \<mapsto> JNum 7, ''content'' \<mapsto> JStr ''hi'']"

definition idFrame :: "string \<rightharpoonup> json" where
  "idFrame = [''type'' \<mapsto> JStr ''message'', ''from'' \<mapsto> JStr ''A'', ''content'' \<mapsto> JStr ''hi'',
              ''id'' \<mapsto> JStr ''m1'']"

definition namelessFrame :: "string \<rightharpoonup> json" where
  "namelessFrame = [''type'' \<mapsto> JStr ''message'', ''content'' \<mapsto> JStr ''hi'']"

definition bridgeChan :: WhatsAppChannel where
  "bridgeChan = NewWhatsAppChannel ''ws://localhost:3001'' []"

definition env0 :: env where
  "env0 =
     \<lparr>jidString = (\<lambda>j. User j @ ''@'' @ Server j),
      clientDownload = (\<lambda>p. if p = ''/v/ok'' then Some ''bytes'' else None),
      tempDir = ''/tmp'',
      createTemp = (\<lambda>d p. Some (d @ ''/'' @ p)),
      fileWrite = (\<lambda>n b. True),
      fileRemove = (\<lambda>f. True),
      userHomeDir = ''/root'',
      filepathDir = (\<lambda>p. p),
      mkdirAll = (\<lambda>d. True),
      sqlstoreNew = (\<lambda>p. True),
      getFirstDevice = Some True,
      clientConnect = True,
      qrChan = [],
      dial = (\<lambda>u. Some 0),
      writeMessage = (\<lambda>m. True),
      parseJID = (\<lambda>s. None),
      sendMessage = (\<lambda>j s. True)\<rparr>"

definition nativeChan :: WhatsAppChannel where
  "nativeChan = (NewWhatsAppChannel [] [])\<lparr>client := Some \<lparr>StoreID = True, IsConnected = True\<rparr>\<rparr>"

definition info0 :: MessageInfo where
  "info0 =
     \<lparr>IsFromMe = False, Chat = \<lparr>User = ''111'', Server = ''s.whatsapp.net''\<rparr>,
      Sender = \<lparr>User = ''111'', Server = ''s.whatsapp.net''\<rparr>, ID = ''m1'',
      PushName = ''Ann'', IsGroup = False\<rparr>"

definition emptyMsg :: Message where
  "emptyMsg =
     \<lparr>conversation = None, extendedTextMessage = None, imageMessage = None,
      videoMessage = None, documentMessage = None, audioMessage = None,
      stickerMessage = None\<rparr>"

definition textMsg :: Message where
  "textMsg = emptyMsg\<lparr>conversation := Some ''hi''\<rparr>"

definition captionedMsg :: Message where
  "captionedMsg =
     emptyMsg\<lparr>conversation := Some ''hi'',
              imageMessage := Some \<lparr>img_DirectPath = ''/v/ok'', img_Caption = Some ''cat''\<rparr>\<rparr>"

definition voiceMsg :: Message where
  "voiceMsg = emptyMsg\<lparr>audioMessage := Some \<lparr>aud_DirectPath = ''/v/ok''\<rparr>\<rparr>"

definition lostVoiceMsg :: Message where
  "lostVoiceMsg = emptyMsg\<lparr>audioMessage := Some \<lparr>aud_DirectPath = ''/v/gone''\<rparr>\<rparr>"

definition nativeNew :: WhatsAppChannel where
  "nativeNew = NewWhatsAppChannel [] ''~/.picoclaw/whatsapp.db''"

definition selfEvt :: MessageEvent where
  "selfEvt = \<lparr>Info = info0\<lparr>IsFromMe := True\<rparr>, Msg = textMsg\<rparr>"

definition failingTranscriber :: Transcriber where
  "failingTranscriber = \<lparr>IsAvailable = True, Transcribe = (\<lambda>p. Inl DeadlineExceeded)\<rparr>"

definition statusEvt :: MessageEvent where
  "statusEvt =
     \<lparr>Info = info0\<lparr>Chat := \<lparr>User = ''status'', Server = ''broadcast''\<rparr>\<rparr>, Msg = textMsg\<rparr>"

definition deafChan :: WhatsAppChannel where
  "deafChan = SetTranscriber (Some failingTranscriber) nativeChan"


section \<open>Properties\<close>

subsection \<open>Auxiliary facts\<close>

lemma onlyFiles_refl: "onlyFiles c c"
  unfolding onlyFiles_def by (rule exI [of _ "files c"], rule exI [of _ "[]"]) simp

lemma onlyFiles_trans:
  assumes "onlyFiles a b" and "onlyFiles b c"
  shows "onlyFiles a c"
proof -
  from assms(1) obtain F xs where
    b: "b = a\<lparr>files := F, effects := effects a @ xs\<rparr>" and x: "\<not> list_ex isHanded xs"
    unfolding onlyFiles_def by blast
  from assms(2) obtain G ys where
    c: "c = b\<lparr>files := G, effects := effects b @ ys\<rparr>" and y: "\<not> list_ex isHanded ys"
    unfolding onlyFiles_def by blast
  have "c = a\<lparr>files := G, effects := effects a @ (xs @ ys)\<rparr>"
    by (simp add: b c)
  moreover have "\<not> list_ex isHanded (xs @ ys)"
    using x y by (auto simp: list_ex_iff)
  ultimately show ?thesis unfolding onlyFiles_def by blast
qed

lemma onlyFiles_os_Remove: "onlyFiles c (os_Remove e f c)"
  unfolding onlyFiles_def os_Remove_def
  by (rule exI [of _ "if fileRemove e f then files c - {f} else files c"],
      rule exI [of _ "[Removed f (fileRemove e f)]"]) simp



lemma onlyFiles_fold_os_Remove: "onlyFiles c (fold (os_Remove e) fs c)"
proof (induction fs arbitrary: c)
  case Nil
  show ?case by (simp add: onlyFiles_refl)
next
  case (Cons f fs)
  have "onlyFiles c (os_Remove e f c)" by (rule onlyFiles_os_Remove)
  moreover have "onlyFiles (os_Remove e f c) (fold (os_Remove e) fs (os_Remove e f c))"
    by (rule Cons.IH)
  ultimately have "onlyFiles c (fold (os_Remove e) fs (os_Remove e f c))"
    by (rule onlyFiles_trans)
  then show ?case by simp
qed

lemma onlyFiles_created: "onlyFiles c (c\<lparr>files := F, effects := effects c @ [Created name]\<rparr>)"
  unfolding onlyFiles_def by (rule exI [of _ F], rule exI [of _ "[Created name]"]) simp

lemma downloadMedia_onlyFiles: "onlyFiles c (snd (downloadMedia e dp ext c))"
proof (cases "client c")
  case None
  then show ?thesis by (simp add: downloadMedia_def onlyFiles_refl)
next
  case (Some cl)
  show ?thesis
  proof (cases "clientDownload e dp")
    case None
    with Some show ?thesis by (simp add: downloadMedia_def onlyFiles_refl)
  next
    case (Some bytes)
    note dl = this
    show ?thesis
    proof (cases "createTemp e (mediaDir e) (''wa_*'' @ ext)")
      case None
      with dl \<open>client c = Some cl\<close> show ?thesis by (simp add: downloadMedia_def onlyFiles_refl)
    next
      case (Some name)
      let ?c1 = "c\<lparr>files := insert name (files c), effects := effects c @ [Created name]\<rparr>"
      have a: "onlyFiles c ?c1" by (rule onlyFiles_created)
      have b: "onlyFiles c (os_Remove e name ?c1)"
        using a onlyFiles_os_Remove by (rule onlyFiles_trans)
      from Some dl \<open>client c = Some cl\<close> a b show ?thesis
        by (simp add: downloadMedia_def Let_def)
    qed
  qed
qed

lemma stepInv_content: "stepInv c (n\<lparr>n_content := x\<rparr>) = stepInv c n"
  by (simp add: stepInv_def)

lemma keepCaption_inv: "stepInv c n \<Longrightarrow> stepInv c (keepCaption cap n)"
  by (simp add: keepCaption_def stepInv_content)

lemma keepPath_inv:
  assumes "stepInv c n"
  shows "stepInv c (keepPath (fst (downloadMedia e dp ext (n_chan n)))
                             (snd (downloadMedia e dp ext (n_chan n))) n)"
proof -
  let ?r = "downloadMedia e dp ext (n_chan n)"
  have o: "onlyFiles c (snd ?r)"
    using assms downloadMedia_onlyFiles unfolding stepInv_def by (blast intro: onlyFiles_trans)
  have m: "n_mediaPaths n = n_localFiles n"
    using assms by (simp add: stepInv_def)
  from o m show ?thesis by (simp add: stepInv_def keepPath_def)
qed

lemma imageStep_inv: "stepInv c n \<Longrightarrow> stepInv c (imageStep e m n)"
  by (simp add: imageStep_def split_def Let_def keepCaption_inv keepPath_inv split: option.splits)

lemma videoStep_inv: "stepInv c n \<Longrightarrow> stepInv c (videoStep e m n)"
  by (simp add: videoStep_def split_def Let_def keepCaption_inv keepPath_inv split: option.splits)

lemma documentStep_inv: "stepInv c n \<Longrightarrow> stepInv c (documentStep e m n)"
  by (simp add: documentStep_def split_def Let_def keepCaption_inv keepPath_inv split: option.splits)

lemma keepPath_empty: "keepPath [] c n = n\<lparr>n_chan := c\<rparr>"
  by (simp add: keepPath_def)

lemma audioStep_inv:
  assumes "stepInv c n"
  shows "stepInv c (audioStep e m n)"
proof (cases "audioMessage m")
  case None
  with assms show ?thesis by (simp add: audioStep_def)
next
  case (Some a)
  let ?r = "downloadMedia e (aud_DirectPath a) ''.ogg'' (n_chan n)"
  have k: "stepInv c (keepPath (fst ?r) (snd ?r) n)"
    using assms by (rule keepPath_inv)
  show ?thesis
  proof (cases "fst ?r = []")
    case True
    with k have "stepInv c (n\<lparr>n_chan := snd ?r\<rparr>)" by (simp add: keepPath_empty)
    with Some True show ?thesis by (simp add: audioStep_def split_def Let_def)
  next
    case False
    with Some k show ?thesis by (simp add: audioStep_def split_def Let_def stepInv_content)
  qed
qed

lemma stickerStep_inv: "stepInv c n \<Longrightarrow> stepInv c (stickerStep m n)"
  by (simp add: stickerStep_def stepInv_content split: option.splits)

lemma beforeAudio_inv: "stepInv c (beforeAudio e m c)"
proof -
  have "stepInv c \<lparr>n_content = extractText m, n_mediaPaths = [], n_localFiles = [], n_chan = c\<rparr>"
    by (simp add: stepInv_def onlyFiles_refl)
  then show ?thesis
    unfolding beforeAudio_def by (intro documentStep_inv videoStep_inv imageStep_inv)
qed

lemma extractAll_inv: "stepInv c (extractAll e m c)"
  unfolding extractAll_def by (intro stickerStep_inv audioStep_inv beforeAudio_inv)

lemma newCalls_same: "newCalls c c = []"
  by (simp add: newCalls_def)

lemma newCalls_append: "bus c' = bus c @ xs \<Longrightarrow> newCalls c c' = xs"
  by (simp add: newCalls_def)

lemma onlyFiles_bus: "onlyFiles c c' \<Longrightarrow> bus c' = bus c"
  unfolding onlyFiles_def by auto

lemma onlyFiles_config: "onlyFiles c c' \<Longrightarrow> config_BridgeURL c' = config_BridgeURL c"
  unfolding onlyFiles_def by auto

lemma onlyFiles_sides:
  "onlyFiles c c' \<Longrightarrow> nativeSide c' = nativeSide c \<and> bridgeSide c' = bridgeSide c"
  unfolding onlyFiles_def nativeSide_def bridgeSide_def by auto


lemma bus_fold_os_Remove: "bus (fold (os_Remove e) fs c) = bus c"
  using onlyFiles_fold_os_Remove by (rule onlyFiles_bus)

lemma handleMessageBody_chan:
  "n_chan (handleMessageBody e evt c) =
     (let n = extractAll e (Msg evt) c
      in if n_content n = [] \<and> n_mediaPaths n = [] then n_chan n
         else (n_chan n)\<lparr>bus := bus (n_chan n) @ [nativeCall e evt n],
                          effects := effects (n_chan n) @ [Handed (nativeCall e evt n)]\<rparr>)"
  by (simp add: handleMessageBody_def Let_def HandleMessage_def Let_def nativeCall_def)


lemma bus_handleMessageEvent:
  "bus (handleMessageEvent e evt c) =
     (let n = extractAll e (Msg evt) c
      in if filtered evt \<or> (n_content n = [] \<and> n_mediaPaths n = []) then bus c
         else bus c @ [nativeCall e evt n])"
proof -
  have "bus (n_chan (extractAll e (Msg evt) c)) = bus c"
    using extractAll_inv [of c e "Msg evt"] by (simp add: stepInv_def onlyFiles_bus)
  then show ?thesis
    by (simp add: handleMessageEvent_def filtered_def bus_fold_os_Remove
        handleMessageBody_chan Let_def)
qed



text \<open>The native path returns before the bus call when the extraction ends with empty
  content and no media paths.\<close>

lemma native_drops_empty_payload:
  assumes "n_content (extractAll e (Msg evt) c) = []"
    and "n_mediaPaths (extractAll e (Msg evt) c) = []"
  shows "newCalls c (handleMessageEvent e evt c) = []"
  using assms by (simp add: bus_handleMessageEvent newCalls_def)

lemma keepPath_content: "n_content (keepPath p c n) = n_content n"
  by (simp add: keepPath_def)

lemma keepCaption_content:
  "n_content (keepCaption cap n) =
     (if cap \<noteq> [] then appendWhatsAppContent (n_content n) cap else n_content n)"
  by (simp add: keepCaption_def)

lemma imageStep_content:
  "n_content (imageStep e m n) =
     (case imageMessage m of
        None \<Rightarrow> n_content n
      | Some i \<Rightarrow> n_content (keepCaption (getStr (img_Caption i)) n))"
  by (simp add: imageStep_def split_def Let_def keepCaption_content keepPath_content
      split: option.splits)

lemma videoStep_content:
  "n_content (videoStep e m n) =
     (case videoMessage m of
        None \<Rightarrow> n_content n
      | Some v \<Rightarrow> n_content (keepCaption (getStr (vid_Caption v)) n))"
  by (simp add: videoStep_def split_def Let_def keepCaption_content keepPath_content
      split: option.splits)

lemma documentStep_content:
  "n_content (documentStep e m n) =
     (case documentMessage m of
        None \<Rightarrow> n_content n
      | Some d \<Rightarrow> n_content (keepCaption (getStr (doc_Caption d)) n))"
  by (simp add: documentStep_def split_def Let_def keepCaption_content keepPath_content
      split: option.splits)

lemma beforeAudio_content:
  "n_content (beforeAudio e m c) =
     (let t0 = extractText m;
          t1 = (case imageMessage m of None \<Rightarrow> t0
                | Some i \<Rightarrow> if getStr (img_Caption i) \<noteq> []
                            then appendWhatsAppContent t0 (getStr (img_Caption i)) else t0);
          t2 = (case videoMessage m of None \<Rightarrow> t1
                | Some v \<Rightarrow> if getStr (vid_Caption v) \<noteq> []
                            then appendWhatsAppContent t1 (getStr (vid_Caption v)) else t1)
      in case documentMessage m of None \<Rightarrow> t2
         | Some d \<Rightarrow> if getStr (doc_Caption d) \<noteq> []
                     then appendWhatsAppContent t2 (getStr (doc_Caption d)) else t2)"
  by (simp add: beforeAudio_def documentStep_content videoStep_content imageStep_content
      keepCaption_content Let_def split: option.splits)

lemma audioStep_none: "audioMessage m = None \<Longrightarrow> audioStep e m n = n"
  by (simp add: audioStep_def)

lemma stickerStep_none: "stickerMessage m = None \<Longrightarrow> stickerStep m n = n"
  by (simp add: stickerStep_def)

lemma audioStep_content:
  assumes "audioMessage m = Some a"
    and "downloadMedia e (aud_DirectPath a) ''.ogg'' (n_chan n) = (path, c')"
  shows "n_content (audioStep e m n) =
           (if path = [] then n_content n
            else appendWhatsAppContent (n_content n) (handleVoiceMessage c' path))"
  using assms by (simp add: audioStep_def keepPath_content)

lemma callTriple_make:
  "callTriple \<lparr>senderID = a, chatID = b, content = ct, mediaPaths = mp, metadata = md\<rparr> = (a, b, ct)"
  by (simp add: callTriple_def)

lemma asString_Some: "asString v = Some s \<longleftrightarrow> v = Some (JStr s)"
  by (cases v; simp add: asString_def split: json.splits)

lemma asString_None: "asString v = None \<longleftrightarrow> (\<forall>s. v \<noteq> Some (JStr s))"
  by (cases v; simp add: asString_def split: json.splits)

lemma fieldOr_asString:
  "fieldOr msg k d = (case asString (msg k) of Some s \<Rightarrow> s | None \<Rightarrow> d)"
  by (simp add: fieldOr_def asString_def split: option.splits json.splits)

lemma bus_handleBridgeMessage:
  "bus (handleBridgeMessage msg c) =
     (case asString (msg ''from'') of
        None \<Rightarrow> bus c
      | Some a \<Rightarrow> bus c @
          [\<lparr>senderID = a, chatID = fieldOr msg ''chat'' a, content = fieldOr msg ''content'' [],
            mediaPaths = (case msg ''media'' of Some (JArr md) \<Rightarrow> bridgeMedia md | _ \<Rightarrow> []),
            metadata = bridgeMetadata msg\<rparr>])"
  by (simp add: handleBridgeMessage_def HandleMessage_def Let_def fieldOr_asString Let_def
      split: option.splits)

lemma handleBridgeMessage_no_sender:
  "asString (msg ''from'') = None \<Longrightarrow> handleBridgeMessage msg c = c"
  by (simp add: handleBridgeMessage_def)

lemma specBridgeCalls_message:
  assumes "asString (msg ''type'') = Some ''message''"
  shows "specBridgeCalls (ReadFrame (Some msg)) =
     (case asString (msg ''from'') of
        None \<Rightarrow> []
      | Some a \<Rightarrow> [(a, fieldOr msg ''chat'' a, fieldOr msg ''content'' [])])"
proof -
  have t: "msg ''type'' = Some (JStr ''message'')"
    using assms by (simp add: asString_Some)
  show ?thesis
    by (simp add: t asString_def split: option.splits json.splits)
qed

lemma specBridgeCalls_other:
  "asString (msg ''type'') \<noteq> Some ''message'' \<Longrightarrow> specBridgeCalls (ReadFrame (Some msg)) = []"
  by (simp add: asString_Some)

lemma listenBridge_calls:
  "\<exists>xs. bus (listenBridge evs c) = bus c @ xs \<and>
        map callTriple xs = concat (map specBridgeCalls (takeWhile (\<lambda>ev. \<not> isCancelled ev) evs))"
proof (induction evs c rule: listenBridge.induct)
  case (6 msg evs c)
  show ?case
  proof (cases "asString (msg ''type'') = Some ''message''")
    case True
    from 6(2) [OF True refl] obtain xs where
      xs: "bus (listenBridge evs (handleBridgeMessage msg c)) = bus (handleBridgeMessage msg c) @ xs"
        "map callTriple xs = concat (map specBridgeCalls (takeWhile (\<lambda>ev. \<not> isCancelled ev) evs))"
      by blast
    show ?thesis
    proof (cases "asString (msg ''from'')")
      case None
      with True xs specBridgeCalls_message [of msg, OF True] show ?thesis
        by (simp add: handleBridgeMessage_no_sender del: specBridgeCalls.simps)
    next
      case (Some a)
      with True xs specBridgeCalls_message [of msg, OF True] show ?thesis
        by (simp add: bus_handleBridgeMessage callTriple_make del: specBridgeCalls.simps)
    qed
  next
    case False
    show ?thesis
    proof (cases "asString (msg ''type'')")
      case None
      with 6(1) [OF None] specBridgeCalls_other [of msg, OF False] show ?thesis
        by (simp del: specBridgeCalls.simps)
    next
      case (Some t)
      with False have t: "t \<noteq> ''message''" by simp
      from 6(3) [OF Some t] Some t specBridgeCalls_other [of msg, OF False] show ?thesis
        by (simp del: specBridgeCalls.simps)
    qed
  qed
qed simp_all

lemma newCalls_listenBridge:
  "map callTriple (newCalls c (listenBridge evs c)) =
     concat (map specBridgeCalls (takeWhile (\<lambda>ev. \<not> isCancelled ev) evs))"
proof -
  obtain xs where "bus (listenBridge evs c) = bus c @ xs"
    and "map callTriple xs = concat (map specBridgeCalls (takeWhile (\<lambda>ev. \<not> isCancelled ev) evs))"
    using listenBridge_calls by blast
  then show ?thesis by (simp add: newCalls_def)
qed

lemma nativeMetadata_keys:
  "nativeMetadata e i ''message_id'' = Some (ID i) \<and>
   nativeMetadata e i ''sender_jid'' = Some (jidString e (Sender i))"
  by (simp add: nativeMetadata_def Let_def)

lemma bridgeMetadata_message_id: "bridgeMetadata msg ''message_id'' = asString (msg ''id'')"
  by (simp add: bridgeMetadata_def Let_def split: option.splits)

lemma newCalls_handleMessageEvent:
  "newCalls c (handleMessageEvent e evt c) =
     (let n = extractAll e (Msg evt) c
      in if filtered evt \<or> (n_content n = [] \<and> n_mediaPaths n = []) then []
         else [nativeCall e evt n])"
  by (simp add: newCalls_def bus_handleMessageEvent Let_def)

lemma newCalls_handleBridgeMessage:
  "newCalls c (handleBridgeMessage msg c) =
     (case asString (msg ''from'') of
        None \<Rightarrow> []
      | Some a \<Rightarrow>
          [\<lparr>senderID = a, chatID = fieldOr msg ''chat'' a, content = fieldOr msg ''content'' [],
            mediaPaths = (case msg ''media'' of Some (JArr md) \<Rightarrow> bridgeMedia md | _ \<Rightarrow> []),
            metadata = bridgeMetadata msg\<rparr>])"
  by (simp add: newCalls_def bus_handleBridgeMessage split: option.splits)

lemma extractAll_textMsg: "n_content (extractAll env0 textMsg nativeChan) = ''hi''"
  by (simp add: extractAll_def beforeAudio_content audioStep_none stickerStep_none
      textMsg_def emptyMsg_def extractText_def GetConversation_def getStr_def)

lemma config_handleMessageEvent:
  "config_BridgeURL (handleMessageEvent e evt c) = config_BridgeURL c"
proof -
  let ?n = "extractAll e (Msg evt) c"
  have o: "onlyFiles c (n_chan ?n)"
    using extractAll_inv [of c e "Msg evt"] by (simp add: stepInv_def)
  have b: "config_BridgeURL (n_chan (handleMessageBody e evt c)) = config_BridgeURL c"
    using onlyFiles_config [OF o] by (simp add: handleMessageBody_chan Let_def)
  have "config_BridgeURL (fold (os_Remove e) fs d) = config_BridgeURL d" for fs d
    using onlyFiles_fold_os_Remove by (rule onlyFiles_config)
  with b show ?thesis by (simp add: handleMessageEvent_def Let_def)
qed

lemma config_handleEvent: "config_BridgeURL (handleEvent e ev c) = config_BridgeURL c"
  by (cases ev) (simp_all add: handleEvent_def config_handleMessageEvent setRunning_def)

lemma config_handleBridgeMessage:
  "config_BridgeURL (handleBridgeMessage msg c) = config_BridgeURL c"
  by (simp add: handleBridgeMessage_def HandleMessage_def Let_def split: option.splits)

lemma config_listenBridge: "config_BridgeURL (listenBridge evs c) = config_BridgeURL c"
  by (induction evs c rule: listenBridge.induct)
     (simp_all add: config_handleBridgeMessage split: option.splits)

lemma config_startBridge: "config_BridgeURL (snd (startBridge e c)) = config_BridgeURL c"
  by (simp add: startBridge_def setRunning_def split: option.splits)

lemma config_stopBridge: "config_BridgeURL (snd (stopBridge c)) = config_BridgeURL c"
  by (simp add: stopBridge_def setRunning_def Let_def split: option.splits)

lemma config_sendBridge: "config_BridgeURL (snd (sendBridge e msg c)) = config_BridgeURL c"
  by (simp add: sendBridge_def Let_def split: option.splits)

lemma config_startNative: "config_BridgeURL (snd (startNative e c)) = config_BridgeURL c"
  by (simp add: startNative_def setRunning_def Let_def split: option.splits)

lemma config_stopNative: "config_BridgeURL (snd (stopNative c)) = config_BridgeURL c"
  by (simp add: stopNative_def setRunning_def Let_def split: option.splits)

lemma config_sendNative: "config_BridgeURL (snd (sendNative e msg c)) = config_BridgeURL c"
  by (simp add: sendNative_def split: option.splits)

lemma config_step: "config_BridgeURL (step k c) = config_BridgeURL c"
  by (cases k)
     (simp_all add: Start_def Stop_def Send_def SetTranscriber_def config_handleEvent
        config_listenBridge config_startBridge config_stopBridge config_sendBridge
        config_startNative config_stopNative config_sendNative)

lemma config_lifetime: "config_BridgeURL (lifetime calls c) = config_BridgeURL c"
  unfolding lifetime_def by (induction calls arbitrary: c) (simp_all add: config_step)

lemma bridge_path_keeps_nativeSide:
  "nativeSide (snd (startBridge e c)) = nativeSide c \<and>
   nativeSide (snd (stopBridge c)) = nativeSide c \<and>
   nativeSide (snd (sendBridge e msg c)) = nativeSide c"
  by (simp add: nativeSide_def startBridge_def stopBridge_def sendBridge_def setRunning_def
      Let_def split: option.splits)

lemma native_path_keeps_bridgeSide:
  "bridgeSide (snd (startNative e c)) = bridgeSide c \<and>
   bridgeSide (snd (stopNative c)) = bridgeSide c \<and>
   bridgeSide (snd (sendNative e msg c)) = bridgeSide c"
  by (simp add: bridgeSide_def startNative_def stopNative_def sendNative_def setRunning_def
      Let_def split: option.splits)

lemmas fixture_defs =
  env0_def nativeChan_def NewWhatsAppChannel_def info0_def emptyMsg_def textMsg_def
  captionedMsg_def voiceMsg_def lostVoiceMsg_def

lemmas extraction_defs =
  extractAll_def beforeAudio_def imageStep_def videoStep_def documentStep_def audioStep_def
  stickerStep_def downloadMedia_def keepPath_def keepCaption_def mediaDir_def extractText_def
  GetConversation_def GetText_def getStr_def appendWhatsAppContent_def newline_def
  handleVoiceMessage_def os_Remove_def Let_def




subsection \<open>The claims\<close>

text \<open>Claim C1. A payload whose normalization yields empty content and no media paths is
  dropped, natively (\<open>native_drops_empty_payload\<close> above) and, as the claim has it, on the
  bridge too. The bridge path has no such check: the frame
  \<open>{"type":"message","from":"A"}\<close> is handed to the bus with empty content and no media
  paths.\<close>

theorem bridge_forwards_empty_payload:
  "map (\<lambda>b. (senderID b, chatID b, content b, mediaPaths b))
     (newCalls bridgeChan (listenBridge [ReadFrame (Some bareFrame)] bridgeChan)) =
   [(''A'', ''A'', [], [])]"
  by (simp add: bareFrame_def bridgeChan_def NewWhatsAppChannel_def asString_def
      handleBridgeMessage_def HandleMessage_def Let_def newCalls_def)

text \<open>Claim C2, as stated, fails on the bridge: the frame
  \<open>{"type":"message","from":"A","content":"hi"}\<close> is handed to the bus with metadata that
  has neither a message identifier nor a sender address.\<close>

theorem bridge_metadata_without_message_id:
  "map (\<lambda>b. (senderID b, content b, metadata b ''message_id'', metadata b ''sender_jid''))
     (newCalls bridgeChan (listenBridge [ReadFrame (Some hiFrame)] bridgeChan)) =
   [(''A'', ''hi'', None, None)]"
  by (simp add: hiFrame_def bridgeChan_def NewWhatsAppChannel_def asString_def
      handleBridgeMessage_def HandleMessage_def Let_def newCalls_def bridgeMetadata_def)

text \<open>Claim C2, amended. Every native message handed to the bus carries in its metadata the
  identifier of the event under \<open>message_id\<close> and the sender address under
  \<open>sender_jid\<close>. Every bridge message handed to the bus carries \<open>message_id\<close> exactly
  when the frame's \<open>id\<close> field is a string, with that value; its sender address is the
  \<open>senderID\<close> argument of the call, the frame's \<open>from\<close> field.\<close>

theorem metadata_of_forwarded_messages:
  "(\<forall>call \<in> set (newCalls c (handleMessageEvent e evt c)).
      metadata call ''message_id'' = Some (ID (Info evt)) \<and>
      metadata call ''sender_jid'' = Some (senderID call) \<and>
      senderID call = jidString e (Sender (Info evt))) \<and>
   (\<forall>call \<in> set (newCalls c' (handleBridgeMessage msg c')).
      metadata call ''message_id'' = asString (msg ''id'') \<and>
      asString (msg ''from'') = Some (senderID call))"
proof -
  have n: "\<forall>call \<in> set (newCalls c (handleMessageEvent e evt c)).
      metadata call ''message_id'' = Some (ID (Info evt)) \<and>
      metadata call ''sender_jid'' = Some (senderID call) \<and>
      senderID call = jidString e (Sender (Info evt))"
    by (simp add: newCalls_handleMessageEvent Let_def nativeCall_def nativeMetadata_keys)
  have b: "\<forall>call \<in> set (newCalls c' (handleBridgeMessage msg c')).
      metadata call ''message_id'' = asString (msg ''id'') \<and>
      asString (msg ''from'') = Some (senderID call)"
  proof (cases "asString (msg ''from'')")
    case None
    then show ?thesis by (simp add: newCalls_handleBridgeMessage)
  next
    case (Some a)
    then show ?thesis by (simp add: newCalls_handleBridgeMessage bridgeMetadata_message_id)
  qed
  from n b show ?thesis by (rule conjI)
qed

text \<open>A native text message and a bridge frame with an \<open>id\<close>: both reach the bus, with the
  metadata the theorem gives.\<close>

theorem metadata_of_forwarded_messages_witness:
  "map (\<lambda>b. (metadata b ''message_id'', metadata b ''sender_jid''))
     (newCalls nativeChan (handleMessageEvent env0 \<lparr>Info = info0, Msg = textMsg\<rparr> nativeChan)) =
     [(Some ''m1'', Some ''111@s.whatsapp.net'')] \<and>
   map (\<lambda>b. (metadata b ''message_id'', senderID b))
     (newCalls bridgeChan (handleBridgeMessage idFrame bridgeChan)) =
     [(Some ''m1'', ''A'')]"
proof -
  let ?evt = "\<lparr>Info = info0, Msg = textMsg\<rparr>"
  obtain x where x: "newCalls nativeChan (handleMessageEvent env0 ?evt nativeChan) = [x]"
    by (simp add: newCalls_handleMessageEvent extractAll_textMsg filtered_def info0_def)
  obtain y where y: "newCalls bridgeChan (handleBridgeMessage idFrame bridgeChan) = [y]"
    by (simp add: newCalls_handleBridgeMessage idFrame_def asString_def)
  have i: "ID (Info ?evt) = ''m1''"
    "jidString env0 (Sender (Info ?evt)) = ''111@s.whatsapp.net''"
    "asString (idFrame ''id'') = Some ''m1''" "asString (idFrame ''from'') = Some ''A''"
    by (simp_all add: info0_def env0_def idFrame_def asString_def)
  note t = metadata_of_forwarded_messages [of nativeChan env0 ?evt bridgeChan idFrame]
  from t have "metadata x ''message_id'' = Some ''m1'' \<and>
               metadata x ''sender_jid'' = Some ''111@s.whatsapp.net''"
    unfolding x i by simp
  moreover from t have "metadata y ''message_id'' = Some ''m1'' \<and> senderID y = ''A''"
    unfolding y i by simp
  ultimately show ?thesis by (simp add: x y)
qed




text \<open>Claim C4, as stated, fails when the download of the audio fails: a payload with an
  audio attachment and nothing else ends with empty content, and is dropped, although the
  annotator would answer \<open>[voice]\<close>.\<close>

theorem voice_annotation_missing_when_download_fails:
  "audioMessage lostVoiceMsg = Some \<lparr>aud_DirectPath = ''/v/gone''\<rparr> \<and>
   handleVoiceMessage nativeChan ''/tmp/picoclaw_media/wa_*.ogg'' = ''[voice]'' \<and>
   n_content (extractAll env0 lostVoiceMsg nativeChan) = [] \<and>
   newCalls nativeChan (handleMessageEvent env0 \<lparr>Info = info0, Msg = lostVoiceMsg\<rparr> nativeChan) = []"
proof -
  have a: "audioMessage lostVoiceMsg = Some \<lparr>aud_DirectPath = ''/v/gone''\<rparr>"
    by (simp add: lostVoiceMsg_def emptyMsg_def)
  have b: "handleVoiceMessage nativeChan ''/tmp/picoclaw_media/wa_*.ogg'' = ''[voice]''"
    by (simp add: handleVoiceMessage_def nativeChan_def NewWhatsAppChannel_def)
  have c: "n_content (extractAll env0 lostVoiceMsg nativeChan) = []"
    by (simp add: extraction_defs fixture_defs)
  have d: "n_mediaPaths (extractAll env0 lostVoiceMsg nativeChan) = []"
    by (simp add: extraction_defs fixture_defs)
  have e: "newCalls nativeChan
             (handleMessageEvent env0 \<lparr>Info = info0, Msg = lostVoiceMsg\<rparr> nativeChan) = []"
    by (simp add: newCalls_handleMessageEvent c d)
  from a b c e show ?thesis by blast
qed

text \<open>Claim C4, amended. For a native payload with an audio attachment whose download gives a
  path, the annotation \<open>handleVoiceMessage\<close> returns for that path is appended to the
  content like a caption: after a single newline when the content so far is not empty,
  as the whole content otherwise. When the download gives no path, nothing is appended.
  Without a sticker this is the normalized content.\<close>

theorem voice_annotation_joined_after_download:
  assumes "audioMessage m = Some a"
    and "downloadMedia e (aud_DirectPath a) ''.ogg'' (n_chan (beforeAudio e m c)) = (path, c')"
  shows "n_content (audioStep e m (beforeAudio e m c)) =
           (if path = [] then n_content (beforeAudio e m c)
            else if n_content (beforeAudio e m c) = [] then handleVoiceMessage c' path
            else n_content (beforeAudio e m c) @ [CHR 0x0A] @ handleVoiceMessage c' path) \<and>
         (stickerMessage m = None \<longrightarrow>
            n_content (extractAll e m c) = n_content (audioStep e m (beforeAudio e m c)))"
  using assms
  by (simp add: audioStep_content [OF assms] extractAll_def stickerStep_none
      appendWhatsAppContent_def newline_def)

text \<open>A voice message alone, downloaded, with no transcriber: the content is the placeholder.\<close>

theorem voice_annotation_joined_after_download_witness:
  "n_content (extractAll env0 voiceMsg nativeChan) = ''[voice]''"
proof -
  have a: "audioMessage voiceMsg = Some \<lparr>aud_DirectPath = ''/v/ok''\<rparr>"
    and s: "stickerMessage voiceMsg = None"
    by (simp_all add: voiceMsg_def emptyMsg_def)
  have n: "n_content (beforeAudio env0 voiceMsg nativeChan) = []"
    by (simp add: beforeAudio_content voiceMsg_def emptyMsg_def extractText_def
        GetConversation_def getStr_def)
  have d: "downloadMedia env0 (aud_DirectPath \<lparr>aud_DirectPath = ''/v/ok''\<rparr>) ''.ogg''
             (n_chan (beforeAudio env0 voiceMsg nativeChan)) =
           (''/tmp/picoclaw_media/wa_*.ogg'',
            nativeChan\<lparr>files := {''/tmp/picoclaw_media/wa_*.ogg''},
                       effects := [Created ''/tmp/picoclaw_media/wa_*.ogg'']\<rparr>)"
    by (simp add: extraction_defs fixture_defs)
  have v: "handleVoiceMessage
             (nativeChan\<lparr>files := {''/tmp/picoclaw_media/wa_*.ogg''},
                         effects := [Created ''/tmp/picoclaw_media/wa_*.ogg'']\<rparr>)
             ''/tmp/picoclaw_media/wa_*.ogg'' = ''[voice]''"
    by (simp add: handleVoiceMessage_def nativeChan_def NewWhatsAppChannel_def)
  from voice_annotation_joined_after_download [OF a d] s
  show ?thesis unfolding n v by simp
qed

text \<open>Claim C5. A message event that is from the adapter's own identity, or whose chat is on
  the \<open>broadcast\<close> server, and a history sync event, whatever it wraps, leave the
  channel as it was: no call is made to the bus.\<close>

theorem filtered_native_events_never_reach_bus:
  "(IsFromMe (Info evt) \<or> Server (Chat (Info evt)) = ''broadcast'' \<longrightarrow>
      handleEvent e (EvMessage evt) c = c \<and> newCalls c (handleEvent e (EvMessage evt) c) = []) \<and>
   handleEvent e (EvHistorySync h) c = c \<and>
   newCalls c (handleEvent e (EvHistorySync h) c) = []"
  by (auto simp: handleEvent_def handleMessageEvent_def newCalls_same)

text \<open>A self-sent text, a status broadcast and a history sync wrapping a text.\<close>

theorem filtered_native_events_never_reach_bus_witness:
  "handleEvent env0 (EvMessage selfEvt) nativeChan = nativeChan \<and>
   newCalls nativeChan (handleEvent env0 (EvMessage selfEvt) nativeChan) = [] \<and>
   handleEvent env0 (EvMessage statusEvt) nativeChan = nativeChan \<and>
   newCalls nativeChan (handleEvent env0 (EvMessage statusEvt) nativeChan) = [] \<and>
   handleEvent env0 (EvHistorySync [\<lparr>Info = info0, Msg = textMsg\<rparr>]) nativeChan = nativeChan"
proof -
  have a: "IsFromMe (Info selfEvt)" by (simp add: selfEvt_def)
  have b: "Server (Chat (Info statusEvt)) = ''broadcast''" by (simp add: statusEvt_def)
  from a b
    filtered_native_events_never_reach_bus
      [of selfEvt env0 nativeChan "[\<lparr>Info = info0, Msg = textMsg\<rparr>]"]
    filtered_native_events_never_reach_bus
      [of statusEvt env0 nativeChan "[\<lparr>Info = info0, Msg = textMsg\<rparr>]"]
  show ?thesis by blast
qed

text \<open>Claim C6. \<open>handleVoiceMessage\<close> returns a string for every path: \<open>[voice]\<close> when no
  transcriber is set or the transcriber is not available, \<open>[voice (transcription
  failed)]\<close> when \<open>Transcribe\<close> returns an error (the expiry of its 30 second context is
  one), and the transcribed text inside \<open>[voice transcription: ...]\<close> otherwise.\<close>

theorem voice_annotation_never_fails:
  "(transcriber c = None \<longrightarrow> handleVoiceMessage c p = ''[voice]'') \<and>
   (\<forall>t. transcriber c = Some t \<and> \<not> IsAvailable t \<longrightarrow> handleVoiceMessage c p = ''[voice]'') \<and>
   (\<forall>t err. transcriber c = Some t \<and> IsAvailable t \<and> Transcribe t p = Inl err \<longrightarrow>
      handleVoiceMessage c p = ''[voice (transcription failed)]'') \<and>
   (\<forall>t txt. transcriber c = Some t \<and> IsAvailable t \<and> Transcribe t p = Inr txt \<longrightarrow>
      handleVoiceMessage c p = ''[voice transcription: '' @ txt @ '']'')"
  by (simp add: handleVoiceMessage_def)

text \<open>No transcriber, and a transcriber whose call runs into the deadline.\<close>

theorem voice_annotation_never_fails_witness:
  "handleVoiceMessage nativeChan ''/tmp/a.ogg'' = ''[voice]'' \<and>
   handleVoiceMessage deafChan ''/tmp/a.ogg'' = ''[voice (transcription failed)]''"
proof -
  have a: "transcriber nativeChan = None"
    by (simp add: nativeChan_def NewWhatsAppChannel_def)
  have b: "transcriber deafChan = Some failingTranscriber \<and> IsAvailable failingTranscriber \<and>
           Transcribe failingTranscriber ''/tmp/a.ogg'' = Inl DeadlineExceeded"
    by (simp add: deafChan_def SetTranscriber_def failingTranscriber_def)
  from a voice_annotation_never_fails [of nativeChan "''/tmp/a.ogg''"]
  have 1: "handleVoiceMessage nativeChan ''/tmp/a.ogg'' = ''[voice]''" by blast
  from b voice_annotation_never_fails [of deafChan "''/tmp/a.ogg''"]
  have 2: "handleVoiceMessage deafChan ''/tmp/a.ogg'' = ''[voice (transcription failed)]''"
    by blast
  from 1 2 show ?thesis by (rule conjI)
qed

text \<open>Claim C7. For a payload whose only attachment is an image, a video or a document with
  a caption (a non-empty one: the getters read an unset and an empty caption alike), the
  normalized content is the text, a single newline and the caption when the text is not
  empty, and the caption alone when it is. This is the content of the call made to the
  bus when the event passes the two filters.\<close>

theorem caption_joined_to_text:
  assumes "audioMessage m = None" and "stickerMessage m = None"
    and "(imageMessage m = Some i \<and> videoMessage m = None \<and> documentMessage m = None \<and>
           getStr (img_Caption i) = cap) \<or>
         (imageMessage m = None \<and> videoMessage m = Some v \<and> documentMessage m = None \<and>
           getStr (vid_Caption v) = cap) \<or>
         (imageMessage m = None \<and> videoMessage m = None \<and> documentMessage m = Some d \<and>
           getStr (doc_Caption d) = cap)"
    and "cap \<noteq> []"
  shows "n_content (extractAll e m c) =
           (if extractText m = [] then cap else extractText m @ [CHR 0x0A] @ cap) \<and>
         (\<not> IsFromMe info \<and> Server (Chat info) \<noteq> ''broadcast'' \<longrightarrow>
            map content (newCalls c (handleMessageEvent e \<lparr>Info = info, Msg = m\<rparr> c)) =
              [if extractText m = [] then cap else extractText m @ [CHR 0x0A] @ cap])"
proof -
  have ct: "n_content (extractAll e m c) =
           (if extractText m = [] then cap else extractText m @ [CHR 0x0A] @ cap)"
    using assms
    by (auto simp: extractAll_def audioStep_none stickerStep_none beforeAudio_content
        appendWhatsAppContent_def newline_def)
  have ne: "n_content (extractAll e m c) \<noteq> []"
    using assms(4) by (simp add: ct)
  have "\<not> filtered \<lparr>Info = info, Msg = m\<rparr> \<Longrightarrow>
        bus (handleMessageEvent e \<lparr>Info = info, Msg = m\<rparr> c) =
          bus c @ [nativeCall e \<lparr>Info = info, Msg = m\<rparr> (extractAll e m c)]"
    using ne by (simp add: bus_handleMessageEvent Let_def)
  then have "\<not> filtered \<lparr>Info = info, Msg = m\<rparr> \<Longrightarrow>
        newCalls c (handleMessageEvent e \<lparr>Info = info, Msg = m\<rparr> c) =
          [nativeCall e \<lparr>Info = info, Msg = m\<rparr> (extractAll e m c)]"
    by (rule newCalls_append)
  then show ?thesis
    using ct by (simp add: filtered_def nativeCall_def)
qed

text \<open>The text \<open>hi\<close> with an image captioned \<open>cat\<close>.\<close>

theorem caption_joined_to_text_witness:
  "n_content (extractAll env0 captionedMsg nativeChan) = ''hi'' @ [CHR 0x0A] @ ''cat'' \<and>
   map content (newCalls nativeChan
     (handleMessageEvent env0 \<lparr>Info = info0, Msg = captionedMsg\<rparr> nativeChan)) =
     [''hi'' @ [CHR 0x0A] @ ''cat'']"
proof -
  have h: "audioMessage captionedMsg = None" "stickerMessage captionedMsg = None"
    "imageMessage captionedMsg = Some \<lparr>img_DirectPath = ''/v/ok'', img_Caption = Some ''cat''\<rparr> \<and>
     videoMessage captionedMsg = None \<and> documentMessage captionedMsg = None \<and>
     getStr (img_Caption \<lparr>img_DirectPath = ''/v/ok'', img_Caption = Some ''cat''\<rparr>) = ''cat''"
    "''cat'' \<noteq> []"
    by (simp_all add: captionedMsg_def emptyMsg_def getStr_def)
  have t: "extractText captionedMsg = ''hi''"
    by (simp add: captionedMsg_def emptyMsg_def extractText_def GetConversation_def getStr_def)
  have i: "\<not> IsFromMe info0 \<and> Server (Chat info0) \<noteq> ''broadcast''"
    by (simp add: info0_def)
  note r = caption_joined_to_text
      [where m = captionedMsg and cap = "''cat''" and e = env0 and c = nativeChan and info = info0
         and i = "\<lparr>img_DirectPath = ''/v/ok'', img_Caption = Some ''cat''\<rparr>",
       OF h(1) h(2) disjI1 h(4), OF h(3)]
  from r i show ?thesis unfolding t by simp
qed

text \<open>Claim C8, as stated, fails for a frame of type "message" without a \<open>from\<close> field: it
  produces no bus call.\<close>

theorem message_frame_without_sender_makes_no_call:
  "namelessFrame ''type'' = Some (JStr ''message'') \<and>
   newCalls bridgeChan (listenBridge [ReadFrame (Some namelessFrame)] bridgeChan) = []"
  by (simp add: namelessFrame_def bridgeChan_def NewWhatsAppChannel_def asString_def
      handleBridgeMessage_def newCalls_def)

text \<open>Claim C8, amended. For every sequence of iterations of the read loop, the calls it makes
  to the bus are, in order, those \<open>specBridgeCalls\<close> gives for the frames read before a
  cancellation: none for a frame that is not of type "message" (nor for a failed read or
  an undecodable frame), none for a message frame whose \<open>from\<close> is absent or not a
  string, and exactly one for a message frame whose \<open>from\<close> is a string, with that
  string as sender, the frame's \<open>chat\<close> or else the sender as chat, and its \<open>content\<close>
  or else the empty string as content. In particular a ping followed by the message
  \<open>hi\<close> from \<open>A\<close> gives the one call \<open>(A, A, hi)\<close>.\<close>

theorem bridge_loop_acts_on_message_frames:
  "map callTriple (newCalls c (listenBridge evs c)) =
     concat (map specBridgeCalls (takeWhile (\<lambda>ev. \<not> isCancelled ev) evs)) \<and>
   map callTriple (newCalls c (listenBridge [ReadFrame (Some pingFrame), ReadFrame (Some hiFrame)] c)) =
     [(''A'', ''A'', ''hi'')]"
proof -
  have "concat (map specBridgeCalls
          (takeWhile (\<lambda>ev. \<not> isCancelled ev) [ReadFrame (Some pingFrame), ReadFrame (Some hiFrame)])) =
        [(''A'', ''A'', ''hi'')]"
    by (simp add: pingFrame_def hiFrame_def fieldOr_def)
  then show ?thesis by (simp only: newCalls_listenBridge simp_thms)
qed

text \<open>Claim C9. With a non-empty bridge URL, \<open>Start\<close>, \<open>Stop\<close> and \<open>Send\<close> are the three
  bridge functions and leave everything the native transport writes untouched; with an
  empty one they are the three native functions and leave everything the bridge transport
  writes untouched. No call changes the bridge URL, so the selection is the same after any
  sequence of calls.\<close>

theorem mode_fixed_by_bridge_url:
  "(config_BridgeURL c \<noteq> [] \<longrightarrow>
      Start e c = startBridge e c \<and> Stop c = stopBridge c \<and> Send e msg c = sendBridge e msg c \<and>
      nativeSide (snd (Start e c)) = nativeSide c \<and> nativeSide (snd (Stop c)) = nativeSide c \<and>
      nativeSide (snd (Send e msg c)) = nativeSide c) \<and>
   (config_BridgeURL c = [] \<longrightarrow>
      Start e c = startNative e c \<and> Stop c = stopNative c \<and> Send e msg c = sendNative e msg c \<and>
      bridgeSide (snd (Start e c)) = bridgeSide c \<and> bridgeSide (snd (Stop c)) = bridgeSide c \<and>
      bridgeSide (snd (Send e msg c)) = bridgeSide c) \<and>
   config_BridgeURL (lifetime calls c) = config_BridgeURL c"
  by (simp add: Start_def Stop_def Send_def bridge_path_keeps_nativeSide
      native_path_keeps_bridgeSide config_lifetime)

text \<open>A channel with a bridge URL dials the bridge and creates no client; a channel without
  one creates the client and holds no connection.\<close>

theorem mode_fixed_by_bridge_url_witness:
  "Start env0 bridgeChan = startBridge env0 bridgeChan \<and>
   Stop bridgeChan = stopBridge bridgeChan \<and>
   conn (snd (Start env0 bridgeChan)) = Some 0 \<and>
   client (snd (Start env0 bridgeChan)) = None \<and>
   Start env0 nativeNew = startNative env0 nativeNew \<and>
   Stop nativeNew = stopNative nativeNew \<and>
   conn (snd (Start env0 nativeNew)) = None \<and>
   client (snd (Start env0 nativeNew)) = Some \<lparr>StoreID = True, IsConnected = True\<rparr>"
proof -
  have b: "config_BridgeURL bridgeChan \<noteq> []"
    by (simp add: bridgeChan_def NewWhatsAppChannel_def)
  have n: "config_BridgeURL nativeNew = []"
    by (simp add: nativeNew_def NewWhatsAppChannel_def)
  have sb: "conn (snd (startBridge env0 bridgeChan)) = Some 0 \<and>
            client (snd (startBridge env0 bridgeChan)) = None"
    by (simp add: startBridge_def env0_def bridgeChan_def NewWhatsAppChannel_def setRunning_def)
  have sn: "conn (snd (startNative env0 nativeNew)) = None \<and>
            client (snd (startNative env0 nativeNew)) = Some \<lparr>StoreID = True, IsConnected = True\<rparr>"
    by (simp add: startNative_def env0_def nativeNew_def NewWhatsAppChannel_def setRunning_def
        Let_def)
  note tb = mode_fixed_by_bridge_url [of bridgeChan env0 "\<lparr>out_ChatID = ''A'', out_Content = ''yo''\<rparr>" "[]"]
  note tn = mode_fixed_by_bridge_url [of nativeNew env0 "\<lparr>out_ChatID = ''A'', out_Content = ''yo''\<rparr>" "[]"]
  from tb b have "Start env0 bridgeChan = startBridge env0 bridgeChan \<and>
                  Stop bridgeChan = stopBridge bridgeChan" by blast
  moreover from tn n have "Start env0 nativeNew = startNative env0 nativeNew \<and>
                  Stop nativeNew = stopNative nativeNew" by blast
  ultimately show ?thesis using sb sn by simp
qed

text \<open>Claim C10. A frame whose \<open>from\<close> field is absent or not a string is dropped by
  \<open>handleBridgeMessage\<close>: the channel is unchanged, no call is made to the bus, and the
  loop goes on with the next iteration.\<close>

theorem bridge_message_without_sender_dropped:
  assumes "\<forall>s. msg ''from'' \<noteq> Some (JStr s)"
  shows "handleBridgeMessage msg c = c \<and>
         newCalls c (handleBridgeMessage msg c) = [] \<and>
         listenBridge (ReadFrame (Some msg) # evs) c = listenBridge evs c"
proof -
  have n: "asString (msg ''from'') = None"
    using assms by (simp add: asString_None)
  then have h: "handleBridgeMessage msg c = c"
    by (rule handleBridgeMessage_no_sender)
  then show ?thesis
    by (simp add: newCalls_same split: option.splits)
qed

text \<open>A message frame whose \<open>from\<close> is a number, followed by a well-formed one: only the
  second reaches the bus.\<close>

theorem bridge_message_without_sender_dropped_witness:
  "handleBridgeMessage anonFrame bridgeChan = bridgeChan \<and>
   newCalls bridgeChan (handleBridgeMessage anonFrame bridgeChan) = [] \<and>
   map callTriple (bus (listenBridge [ReadFrame (Some anonFrame), ReadFrame (Some hiFrame)] bridgeChan)) =
     [(''A'', ''A'', ''hi'')]"
proof -
  have a: "\<forall>s. anonFrame ''from'' \<noteq> Some (JStr s)"
    by (simp add: anonFrame_def)
  have b: "map callTriple (bus (listenBridge [ReadFrame (Some hiFrame)] bridgeChan)) = [(''A'', ''A'', ''hi'')]"
    by (simp add: hiFrame_def bridgeChan_def NewWhatsAppChannel_def asString_def
        handleBridgeMessage_def HandleMessage_def Let_def callTriple_def)
  note t = bridge_message_without_sender_dropped
             [of anonFrame bridgeChan "[ReadFrame (Some hiFrame)]", OF a]
  from t have t3: "listenBridge [ReadFrame (Some anonFrame), ReadFrame (Some hiFrame)] bridgeChan =
                   listenBridge [ReadFrame (Some hiFrame)] bridgeChan"
    by blast
  from t b show ?thesis unfolding t3 by blast
qed

end
